theory Spec2Isabelle
  imports Main "HOL-Library.AList"
begin

section \<open>Python values and exceptions\<close>

text \<open>
  The module \<^verbatim>\<open>rcapi.py\<close> is embedded function by function. A Python \<^verbatim>\<open>str\<close> is a
  \<^typ>\<open>string\<close>; a character stands for the code point of the same number (code points
  below 256). A value that may be \<^verbatim>\<open>None\<close> is an \<^typ>\<open>'a option\<close>. A call that
  raises returns \<open>Inl\<close> of the exception, a call that returns gives \<open>Inr\<close> of the value.
\<close>

datatype error =
    AttributeError
  | KeyError string
  | TypeError
  | NameError string
  | UnboundLocalError string
  | NoSuchElementException
  | WebDriverException
  | IndexError
  | RequestException
  | JSONDecodeError

text \<open>The values that \<^verbatim>\<open>json.loads\<close> and the adapters produce (numbers are not modelled).\<close>

datatype pyval =
    PNone
  | PBool bool
  | PStr string
  | PList "pyval list"
  | PDict "(string \<times> pyval) list"

section \<open>String methods of the Python library\<close>

definition ord :: "char \<Rightarrow> nat" where
  "ord c = of_char c"

text \<open>\<^verbatim>\<open>\s\<close> of \<^verbatim>\<open>re\<close> on a \<^verbatim>\<open>str\<close> pattern: tab, line feed, vertical tab, form feed,
  carriage return, the four separators 28 to 31, space, and below 256 also NEL and the
  no-break space.\<close>

definition is_space :: "char \<Rightarrow> bool" where
  "is_space c = (ord c \<in> {9, 10, 11, 12, 13, 28, 29, 30, 31, 32, 133, 160})"

text \<open>\<^verbatim>\<open>str.lower\<close>, one character: the upper-case letters below 256 are A to Z and
  the range 192 to 222 without the multiplication sign 215; each has its lower-case
  partner 32 places higher.\<close>

definition is_upper :: "char \<Rightarrow> bool" where
  "is_upper c = ((65 \<le> ord c \<and> ord c \<le> 90) \<or> (192 \<le> ord c \<and> ord c \<le> 222 \<and> ord c \<noteq> 215))"

definition lower_char :: "char \<Rightarrow> char" where
  "lower_char c = (if is_upper c then char_of (ord c + 32) else c)"

definition lower :: "string \<Rightarrow> string" where
  "lower s = map lower_char s"

text \<open>\<^verbatim>\<open>s.strip(chars)\<close>: drop the leading and the trailing characters that occur in
  \<open>chars\<close>.\<close>

definition strip :: "string \<Rightarrow> string \<Rightarrow> string" where
  "strip chars s =
     rev (dropWhile (\<lambda>c. c \<in> set chars) (rev (dropWhile (\<lambda>c. c \<in> set chars) s)))"

text \<open>\<^verbatim>\<open>re.sub("\s+", " ", s)\<close>: every maximal run of whitespace becomes one space.\<close>

function sub_spaces :: "string \<Rightarrow> string" where
  "sub_spaces [] = []"
| "sub_spaces (c # cs) =
     (if is_space c then CHR '' '' # sub_spaces (dropWhile is_space cs)
      else c # sub_spaces cs)"
  by pat_completeness auto
termination
  by (relation "measure length") (auto simp: le_imp_less_Suc length_dropWhile_le)

section \<open>Utility functions\<close>

text \<open>The characters of \<^verbatim>\<open>" \"'?!.,"\<close>: space, double quote, apostrophe, question mark,
  exclamation mark, full stop, comma.\<close>

definition strip_chars :: "string" where
  "strip_chars = [CHR '' '', CHR 0x22, CHR 0x27, CHR ''?'', CHR ''!'', CHR ''.'', CHR '','']"

text \<open>\<^verbatim>\<open>clean_title(title)\<close>. On \<^verbatim>\<open>None\<close> the attribute \<^verbatim>\<open>strip\<close> does not exist.\<close>

fun clean_title :: "string option \<Rightarrow> error + string" where
  "clean_title None = Inl AttributeError"
| "clean_title (Some title) = Inr (lower (sub_spaces (strip strip_chars title)))"

text \<open>\<^verbatim>\<open>title_match(title0, title1)\<close>: the left operand of \<^verbatim>\<open>==\<close> is evaluated first.\<close>

definition title_match :: "string option \<Rightarrow> string option \<Rightarrow> error + bool" where
  "title_match title0 title1 =
     (case clean_title title0 of
        Inl e \<Rightarrow> Inl e
      | Inr t0 \<Rightarrow> (case clean_title title1 of
                    Inl e \<Rightarrow> Inl e
                  | Inr t1 \<Rightarrow> Inr (t0 = t1)))"

text \<open>\<^verbatim>\<open>s.split(sep)\<close> for a separator that is not empty; \<open>cur\<close> is the piece read
  so far.\<close>

function py_split :: "string \<Rightarrow> string \<Rightarrow> string \<Rightarrow> string list" where
  "py_split sep cur [] = [cur]"
| "py_split sep cur (c # cs) =
     (if sep \<noteq> [] \<and> take (length sep) (c # cs) = sep
      then cur # py_split sep [] (drop (length sep) (c # cs))
      else py_split sep (cur @ [c]) cs)"
  by pat_completeness auto
termination
  by (relation "measure (\<lambda>(sep, cur, s). length s)") auto

text \<open>\<^verbatim>\<open>"{}".format(x)\<close> for \<open>x\<close> a string or \<^verbatim>\<open>None\<close>.\<close>

fun format_opt :: "string option \<Rightarrow> string" where
  "format_opt None = ''None''"
| "format_opt (Some s) = s"

fun opt_str :: "string option \<Rightarrow> pyval" where
  "opt_str None = PNone"
| "opt_str (Some s) = PStr s"

section \<open>Parsed documents\<close>

text \<open>
  What \<^verbatim>\<open>BeautifulSoup(text, "html.parser")\<close> returns: a tree of tags and strings. The
  value of a multi-valued attribute (\<^verbatim>\<open>class\<close>) is the list of its tokens.
\<close>

datatype attr_value = Single string | Multi "string list"

datatype node =
    Tag string "(string \<times> attr_value) list" "node list"
  | NavigableString string

fun descendants :: "node \<Rightarrow> node list" where
  "descendants (NavigableString s) = []"
| "descendants (Tag name attrs cs) = concat (map (\<lambda>c. c # descendants c) cs)"

fun get_text :: "node \<Rightarrow> string" where
  "get_text (NavigableString s) = s"
| "get_text (Tag name attrs cs) = concat (map get_text cs)"

fun join_space :: "string list \<Rightarrow> string" where
  "join_space [] = []"
| "join_space [x] = x"
| "join_space (x # y # r) = x @ CHR '' '' # join_space (y # r)"

text \<open>A wanted string matches a multi-valued attribute when it is one of the tokens or
  the whole value.\<close>

fun value_matches :: "attr_value \<Rightarrow> string \<Rightarrow> bool" where
  "value_matches (Single v) wanted = (v = wanted)"
| "value_matches (Multi vs) wanted = (wanted \<in> set vs \<or> join_space vs = wanted)"

fun matches_tag :: "string \<Rightarrow> (string \<times> string) list \<Rightarrow> node \<Rightarrow> bool" where
  "matches_tag name wanted (NavigableString s) = False"
| "matches_tag name wanted (Tag nm attrs cs) =
     (nm = name \<and>
      list_all (\<lambda>(k, v). case map_of attrs k of None \<Rightarrow> False
                                               | Some a \<Rightarrow> value_matches a v) wanted)"

text \<open>\<^verbatim>\<open>root.find_all(name, attrs)\<close> and \<^verbatim>\<open>root.find(name, attrs)\<close>, in document
  order; \<^verbatim>\<open>root.findChildren()\<close> gives every tag below the root.\<close>

definition find_all :: "node \<Rightarrow> string \<Rightarrow> (string \<times> string) list \<Rightarrow> node list" where
  "find_all root name wanted = filter (matches_tag name wanted) (descendants root)"

definition find_first :: "node \<Rightarrow> string \<Rightarrow> (string \<times> string) list \<Rightarrow> node option" where
  "find_first root name wanted =
     (case find_all root name wanted of [] \<Rightarrow> None | n # _ \<Rightarrow> Some n)"

fun is_tag :: "node \<Rightarrow> bool" where
  "is_tag (Tag name attrs cs) = True"
| "is_tag (NavigableString s) = False"

definition findChildren :: "node \<Rightarrow> node list" where
  "findChildren root = filter is_tag (descendants root)"

text \<open>\<^verbatim>\<open>get_xml_node_value(root, name)\<close>: a tag is always true, so the test is on
  \<^verbatim>\<open>None\<close> alone.\<close>

definition get_xml_node_value :: "node \<Rightarrow> string \<Rightarrow> string option" where
  "get_xml_node_value root name =
     (case find_first root name [] of None \<Rightarrow> None | Some n \<Rightarrow> Some (get_text n))"

section \<open>The world outside the module\<close>

text \<open>
  The libraries and services the module calls are parameters: the two URL encoders, the
  HTTP request (\<^verbatim>\<open>requests.get(url).text\<close>), the two parsers, the \<^verbatim>\<open>DEFAULT\<close>
  section of the configuration file, the query of a Dimensions client made from a user
  name and a password, the iteration order of a Python set (the elements are listed by
  rank, so every order arises from some ranking), and the browser: started from an
  executable path and sent a title through the search form, it either fails or shows a
  page, given by the \<^verbatim>\<open>href\<close> of each element of class \<^verbatim>\<open>title optClickTitle\<close>.
\<close>

record world =
  quote :: "string \<Rightarrow> string"
  quote_plus :: "string \<Rightarrow> string"
  requests_get :: "string \<Rightarrow> error + string"
  beautiful_soup :: "string \<Rightarrow> node"
  json_loads :: "string \<Rightarrow> error + pyval"
  config :: "(string \<times> string) list"
  execute_query :: "string \<times> string \<Rightarrow> string \<Rightarrow> error + pyval"
  set_rank :: "pyval \<Rightarrow> nat"
  browse :: "string \<Rightarrow> string \<Rightarrow> error + string option list"

text \<open>An \<^verbatim>\<open>OrderedDict\<close> or \<^verbatim>\<open>dict\<close> with string keys is an association list;
  \<^verbatim>\<open>d[k] = v\<close> is \<^const>\<open>AList.update\<close>: in place for a key that is there, at the end
  for a new one.\<close>

type_synonym meta = "(string \<times> pyval) list"

section \<open>EuropePMC\<close>

definition europepmc_get_api_url :: "world \<Rightarrow> string \<Rightarrow> string" where
  "europepmc_get_api_url w title =
     ''https://www.ebi.ac.uk/europepmc/webservices/rest/search?query='' @ quote w title"

text \<open>The body of the \<^verbatim>\<open>if title_match(...)\<close> of the loop. The \<^verbatim>\<open>split\<close> is on the
  value of \<^verbatim>\<open>authorstring\<close>, which may be \<^verbatim>\<open>None\<close>; \<^verbatim>\<open>meta["pmcid"]\<close> is the value
  stored three lines before.\<close>

definition europepmc_entry :: "node \<Rightarrow> meta \<Rightarrow> error + meta" where
  "europepmc_entry result meta =
     (let pmcid = get_xml_node_value result ''pmcid'';
          m1 = AList.update ''doi'' (opt_str (get_xml_node_value result ''doi'')) meta;
          m2 = AList.update ''pmcid'' (opt_str pmcid) m1;
          m3 = AList.update ''journal'' (opt_str (get_xml_node_value result ''journaltitle'')) m2
      in case get_xml_node_value result ''authorstring'' of
           None \<Rightarrow> Inl AttributeError
         | Some authorstring \<Rightarrow>
             (let m4 = AList.update ''authors''
                         (PList (map PStr (py_split '', '' [] authorstring))) m3
              in if get_xml_node_value result ''haspdf'' = Some ''Y''
                 then Inr (AList.update ''pdf''
                        (PStr (''http://europepmc.org/articles/'' @ format_opt pmcid
                               @ ''?pdf=render'')) m4)
                 else Inr m4))"

text \<open>The loop over \<^verbatim>\<open>result_list\<close>, with the record built so far.\<close>

fun europepmc_results :: "string \<Rightarrow> node list \<Rightarrow> meta \<Rightarrow> error + meta" where
  "europepmc_results title [] meta = Inr meta"
| "europepmc_results title (result # rest) meta =
     (case title_match (Some title) (get_xml_node_value result ''title'') of
        Inl e \<Rightarrow> Inl e
      | Inr matched \<Rightarrow>
          if matched
          then (case europepmc_entry result meta of
                  Inl e \<Rightarrow> Inl e
                | Inr meta' \<Rightarrow> europepmc_results title rest meta')
          else europepmc_results title rest meta)"

definition europepmc_title_search :: "world \<Rightarrow> string \<Rightarrow> error + meta" where
  "europepmc_title_search w title =
     (case requests_get w (europepmc_get_api_url w title) of
        Inl e \<Rightarrow> Inl e
      | Inr response \<Rightarrow>
          europepmc_results title (find_all (beautiful_soup w response) ''result'' []) [])"

section \<open>OpenAIRE\<close>

definition openaire_get_api_url :: "world \<Rightarrow> string \<Rightarrow> string" where
  "openaire_get_api_url w title =
     ''http://api.openaire.eu/search/publications?title='' @ quote w title"

definition openaire_entry :: "node \<Rightarrow> meta \<Rightarrow> meta" where
  "openaire_entry result meta =
     (let m1 = AList.update ''url'' (opt_str (get_xml_node_value result ''url'')) meta;
          m2 = AList.update ''authors''
                 (PList (map (\<lambda>a. PStr (get_text a)) (find_all result ''creator'' []))) m1
      in AList.update ''open''
           (PBool (length (find_all result ''bestaccessright'' [(''classid'', ''OPEN'')]) > 0))
           m2)"

text \<open>The loop, left by \<^verbatim>\<open>break\<close> at the first match.\<close>

fun openaire_results :: "string \<Rightarrow> node list \<Rightarrow> meta \<Rightarrow> error + meta" where
  "openaire_results title [] meta = Inr meta"
| "openaire_results title (result # rest) meta =
     (case title_match (Some title) (get_xml_node_value result ''title'') of
        Inl e \<Rightarrow> Inl e
      | Inr matched \<Rightarrow>
          if matched then Inr (openaire_entry result meta)
          else openaire_results title rest meta)"

definition openaire_title_search :: "world \<Rightarrow> string \<Rightarrow> error + meta" where
  "openaire_title_search w title =
     (case requests_get w (openaire_get_api_url w title) of
        Inl e \<Rightarrow> Inl e
      | Inr response \<Rightarrow>
          openaire_results title (find_all (beautiful_soup w response) ''oaf:result'' []) [])"

section \<open>RePEc\<close>

definition repec_get_cgi_url :: "world \<Rightarrow> string \<Rightarrow> string" where
  "repec_get_cgi_url w title =
     ''https://ideas.repec.org/cgi-bin/htsearch?q=''
       @ quote_plus w (filter (\<lambda>c. c \<noteq> CHR ''('' \<and> c \<noteq> CHR '')'' \<and> c \<noteq> CHR '':'') title)"

text \<open>\<^verbatim>\<open>repec_get_api_url(handle, token)\<close>: the first parameter is the handle, the
  second the token.\<close>

definition repec_get_api_url :: "string option \<Rightarrow> string option \<Rightarrow> string" where
  "repec_get_api_url handle token =
     ''https://api.repec.org/call.cgi?code='' @ format_opt token
       @ ''&getref='' @ format_opt handle"

definition repec_get_handle :: "world \<Rightarrow> string \<Rightarrow> error + string option" where
  "repec_get_handle w title =
     (case requests_get w (repec_get_cgi_url w title) of
        Inl e \<Rightarrow> Inl e
      | Inr response \<Rightarrow>
          (case find_first (beautiful_soup w response) ''ol'' [(''class'', ''list-group'')] of
             None \<Rightarrow> Inl AttributeError
           | Some ol \<Rightarrow>
               (case findChildren ol of
                  [] \<Rightarrow> Inr None
                | li # _ \<Rightarrow>
                    (case find_first li ''i'' [] of
                       None \<Rightarrow> Inl AttributeError
                     | Some i \<Rightarrow> Inr (Some (get_text i))))))"

text \<open>\<^verbatim>\<open>repec_get_meta(token, handle)\<close> passes its arguments on in the order
  \<^verbatim>\<open>(token, handle)\<close>; whatever is raised inside the \<^verbatim>\<open>try\<close> gives \<^verbatim>\<open>None\<close>.\<close>

definition repec_get_meta :: "world \<Rightarrow> string option \<Rightarrow> string option \<Rightarrow> pyval" where
  "repec_get_meta w token handle =
     (let url = repec_get_api_url token handle
      in case requests_get w url of
           Inl e \<Rightarrow> PNone
         | Inr response \<Rightarrow>
             (case json_loads w response of Inl e \<Rightarrow> PNone | Inr meta \<Rightarrow> meta))"

section \<open>Dimensions\<close>

text \<open>Truth value, \<^verbatim>\<open>len\<close>, \<^verbatim>\<open>x[0]\<close> and \<^verbatim>\<open>x[key]\<close> of a value; \<^verbatim>\<open>None\<close> of
  \<open>py_len\<close> stands for the \<^verbatim>\<open>TypeError\<close> of a value without a length.\<close>

fun truthy :: "pyval \<Rightarrow> bool" where
  "truthy PNone = False"
| "truthy (PBool b) = b"
| "truthy (PStr s) = (s \<noteq> [])"
| "truthy (PList xs) = (xs \<noteq> [])"
| "truthy (PDict d) = (d \<noteq> [])"

fun py_len :: "pyval \<Rightarrow> nat option" where
  "py_len (PStr s) = Some (length s)"
| "py_len (PList xs) = Some (length xs)"
| "py_len (PDict d) = Some (length d)"
| "py_len PNone = None"
| "py_len (PBool b) = None"

fun index0 :: "pyval \<Rightarrow> error + pyval" where
  "index0 (PList (x # xs)) = Inr x"
| "index0 (PList []) = Inl IndexError"
| "index0 (PStr (c # cs)) = Inr (PStr [c])"
| "index0 (PStr []) = Inl IndexError"
| "index0 (PDict d) = Inl (KeyError ''0'')"
| "index0 PNone = Inl TypeError"
| "index0 (PBool b) = Inl TypeError"

fun getitem :: "pyval \<Rightarrow> string \<Rightarrow> error + pyval" where
  "getitem (PDict d) key = (case map_of d key of None \<Rightarrow> Inl (KeyError key) | Some v \<Rightarrow> Inr v)"
| "getitem PNone key = Inl TypeError"
| "getitem (PBool b) key = Inl TypeError"
| "getitem (PStr s) key = Inl TypeError"
| "getitem (PList xs) key = Inl TypeError"

text \<open>\<^verbatim>\<open>list(a_set)\<close>: the distinct elements, in the order of their rank.\<close>

definition set_order :: "('a \<Rightarrow> nat) \<Rightarrow> 'a list \<Rightarrow> 'a list" where
  "set_order h xs = sort_key h (remdups xs)"

fun hashable :: "pyval \<Rightarrow> bool" where
  "hashable (PList xs) = False"
| "hashable (PDict d) = False"
| "hashable v = True"

text \<open>\<^verbatim>\<open>{k: src[k] for k in keys}\<close>, started from \<open>acc\<close>.\<close>

fun dict_comp :: "string list \<Rightarrow> meta \<Rightarrow> meta \<Rightarrow> error + meta" where
  "dict_comp [] src acc = Inr acc"
| "dict_comp (k # ks) src acc =
     (case map_of src k of
        None \<Rightarrow> Inl (KeyError k)
      | Some v \<Rightarrow> dict_comp ks src (AList.update k v acc))"

text \<open>\<^verbatim>\<open>list(set(terms + concepts))\<close>: two lists are appended and two strings are
  joined (a set of a string holds its characters); no other pair of values here has a
  sum that \<^verbatim>\<open>set\<close> accepts, and \<^verbatim>\<open>set\<close> refuses a list with an unhashable element.\<close>

fun keywords_of :: "(pyval \<Rightarrow> nat) \<Rightarrow> pyval \<Rightarrow> pyval \<Rightarrow> error + pyval" where
  "keywords_of h (PList ts) (PList cs) =
     (if list_all hashable (ts @ cs) then Inr (PList (set_order h (ts @ cs)))
      else Inl TypeError)"
| "keywords_of h (PStr a) (PStr b) = Inr (PList (set_order h (map (\<lambda>c. PStr [c]) (a @ b))))"
| "keywords_of h terms concepts = Inl TypeError"

definition connect_dimensions_api :: "world \<Rightarrow> error + string \<times> string" where
  "connect_dimensions_api w =
     (case map_of (config w) ''email'' of
        None \<Rightarrow> Inl (KeyError ''email'')
      | Some username \<Rightarrow>
          (case map_of (config w) ''dimensions_password'' of
             None \<Rightarrow> Inl (KeyError ''dimensions_password'')
           | Some password \<Rightarrow> Inr (username, password)))"

text \<open>\<^verbatim>\<open>search_title(title, api_client)\<close>: the query is sent outside the \<^verbatim>\<open>try\<close>;
  inside it every exception ends in \<^verbatim>\<open>None\<close>.\<close>

definition search_title :: "world \<Rightarrow> string \<Rightarrow> string \<times> string \<Rightarrow> error + pyval" where
  "search_title w title api_client =
     (let title' = concat (map (\<lambda>c. if c = CHR 0x22 then [CHR 0x5C, CHR 0x22] else [c]) title);
          query = ''search publications in title_only for '' @ [CHR 0x22, CHR 0x5C, CHR 0x22]
                    @ title' @ [CHR 0x5C, CHR 0x22, CHR 0x22] @ '' return publications[all]''
      in case execute_query w api_client query of
           Inl e \<Rightarrow> Inl e
         | Inr dimensions_return \<Rightarrow>
             (case getitem dimensions_return ''publications'' of
                Inl e \<Rightarrow> Inr PNone
              | Inr title_return \<Rightarrow>
                  (case py_len title_return of
                     None \<Rightarrow> Inr PNone
                   | Some n \<Rightarrow> if n > 0 then Inr title_return else Inr PNone)))"

definition format_dimensions :: "(pyval \<Rightarrow> nat) \<Rightarrow> pyval \<Rightarrow> error + pyval" where
  "format_dimensions h dimensions_md =
     (case dimensions_md of
        PDict d \<Rightarrow>
          (let filt_keys = set_order (\<lambda>k. h (PStr k))
                 (filter (\<lambda>k. k \<in> set [''authors'', ''doi'', ''linkout'', ''concepts'', ''terms'',
                                          ''journal'']) (map fst d))
           in case dict_comp filt_keys d [] of
                Inl e \<Rightarrow> Inl e
              | Inr pubs_dict \<Rightarrow>
           (case getitem (PDict pubs_dict) ''terms'' of
                Inl e \<Rightarrow> Inl e
              | Inr terms \<Rightarrow>
           (case getitem (PDict pubs_dict) ''concepts'' of
                Inl e \<Rightarrow> Inl e
              | Inr concepts \<Rightarrow>
           (case keywords_of h terms concepts of
                Inl e \<Rightarrow> Inl e
              | Inr keywords \<Rightarrow>
           (case getitem (PDict pubs_dict) ''journal'' of
                Inl e \<Rightarrow> Inl e
              | Inr journal \<Rightarrow>
           (case getitem journal ''title'' of
                Inl e \<Rightarrow> Inl e
              | Inr journal_title \<Rightarrow>
           (let pubs_dict' = AList.update ''journal_title'' journal_title
                               (AList.update ''keywords'' keywords pubs_dict);
                final_keys = set_order (\<lambda>k. h (PStr k))
                   (filter (\<lambda>k. k \<in> set [''authors'', ''doi'', ''linkout'', ''keywords'',
                                           ''journal_title'']) filt_keys)
                   @ [''keywords'', ''journal_title'']
            in case dict_comp final_keys pubs_dict' [] of
                 Inl e \<Rightarrow> Inl e
               | Inr pubs_dict_final \<Rightarrow> Inr (PDict pubs_dict_final))))))))
      | _ \<Rightarrow> Inl AttributeError)"

definition dimensions_run_exact_string_search ::
    "world \<Rightarrow> string \<Rightarrow> string \<times> string \<Rightarrow> error + pyval" where
  "dimensions_run_exact_string_search w string api_client =
     execute_query w api_client
       (''search publications in full_data for '' @ [CHR 0x22, CHR 0x5C, CHR 0x22] @ string
          @ [CHR 0x5C, CHR 0x22, CHR 0x22]
          @ '' return publications[doi+title+journal+author_affiliations]'')"

text \<open>\<^verbatim>\<open>dimensions_from_title\<close>: without a result the function ends without
  \<^verbatim>\<open>return\<close>, which gives \<^verbatim>\<open>None\<close>.\<close>

definition dimensions_from_title :: "world \<Rightarrow> string \<Rightarrow> string \<times> string \<Rightarrow> error + pyval" where
  "dimensions_from_title w title api_client =
     (case search_title w title api_client of
        Inl e \<Rightarrow> Inl e
      | Inr dimensions_md_all \<Rightarrow>
          if truthy dimensions_md_all
          then (case index0 dimensions_md_all of
                  Inl e \<Rightarrow> Inl e
                | Inr dimensions_md \<Rightarrow>
                    (case format_dimensions (set_rank w) dimensions_md of
                       Inl e \<Rightarrow> Inl e
                     | Inr (PDict dimensions_pubs_dict) \<Rightarrow>
                         Inr (PDict (AList.update ''title'' (PStr title) dimensions_pubs_dict))
                     | Inr other \<Rightarrow> Inl AttributeError))
          else Inr PNone)"

definition dimensions_title_search :: "world \<Rightarrow> string \<Rightarrow> string \<times> string \<Rightarrow> error + pyval" where
  "dimensions_title_search w title api_client = dimensions_from_title w title api_client"

definition get_dimensions_md :: "world \<Rightarrow> string \<Rightarrow> error + pyval" where
  "get_dimensions_md w title =
     (case connect_dimensions_api w of
        Inl e \<Rightarrow> Inl e
      | Inr api_cnxn \<Rightarrow> dimensions_title_search w title api_cnxn)"

section \<open>SSRN\<close>

text \<open>\<^verbatim>\<open>search_ssrn(title)\<close>: \<^verbatim>\<open>find_element_by_xpath\<close> gives the first element that
  matches and raises when there is none; \<^verbatim>\<open>get_attribute\<close> gives \<^verbatim>\<open>None\<close> for an
  attribute that is not set.\<close>

definition search_ssrn :: "world \<Rightarrow> string \<Rightarrow> error + pyval" where
  "search_ssrn w title =
     (case map_of (config w) ''chrome_exe_path'' of
        None \<Rightarrow> Inl (KeyError ''chrome_exe_path'')
      | Some chrome_path \<Rightarrow>
          (case browse w chrome_path title of
             Inl e \<Rightarrow> Inl e
           | Inr [] \<Rightarrow> Inl NoSuchElementException
           | Inr (ssrn_link # _) \<Rightarrow> Inr (opt_str ssrn_link)))"

section \<open>Consolidated functions\<close>

text \<open>A local variable is \<^verbatim>\<open>None\<close> (in HOL) until it is assigned; returning it before
  raises \<^verbatim>\<open>UnboundLocalError\<close>.\<close>

definition full_text_search :: "world \<Rightarrow> string \<Rightarrow> string \<Rightarrow> error + pyval" where
  "full_text_search w search_term api_name =
     (case (if lower api_name = ''dimensions''
            then (case connect_dimensions_api w of
                    Inl e \<Rightarrow> Inl e
                  | Inr api_client \<Rightarrow>
                      (case dimensions_run_exact_string_search w search_term api_client of
                         Inl e \<Rightarrow> Inl e
                       | Inr stringsearch_result \<Rightarrow>
                           if truthy stringsearch_result
                           then map_sum id Some (getitem stringsearch_result ''publications'')
                           else Inr None))
            else Inr None) of
        Inl e \<Rightarrow> Inl e
      | Inr None \<Rightarrow> Inl (UnboundLocalError ''ss_result'')
      | Inr (Some ss_result) \<Rightarrow> Inr ss_result)"

text \<open>\<^verbatim>\<open>title_search(title, api_name)\<close>: four \<^verbatim>\<open>if\<close> statements in a row. The module
  has no definition and no import of the names \<^verbatim>\<open>get_epmc_page\<close> and
  \<^verbatim>\<open>oa_lookup_pub_uris\<close>, so looking them up raises \<^verbatim>\<open>NameError\<close>.\<close>

definition title_search :: "world \<Rightarrow> string \<Rightarrow> string \<Rightarrow> error + pyval" where
  "title_search w title api_name =
     (case (if lower api_name = ''dimensions''
            then map_sum id Some (get_dimensions_md w title) else Inr None) of
        Inl e \<Rightarrow> Inl e
      | Inr r1 \<Rightarrow>
     (case (if lower api_name = ''ssrn''
            then map_sum id Some (search_ssrn w title) else Inr r1) of
        Inl e \<Rightarrow> Inl e
      | Inr r2 \<Rightarrow>
     (case (if lower api_name = ''europepmc''
            then Inl (NameError ''get_epmc_page'') else Inr r2) of
        Inl e \<Rightarrow> Inl e
      | Inr r3 \<Rightarrow>
     (case (if lower api_name = ''openaire''
            then Inl (NameError ''oa_lookup_pub_uris'') else Inr r3) of
        Inl e \<Rightarrow> Inl e
      | Inr None \<Rightarrow> Inl (UnboundLocalError ''titlesearch_result'')
      | Inr (Some titlesearch_result) \<Rightarrow> Inr titlesearch_result))))"

section \<open>Predicates and example worlds used in the statements\<close>



text \<open>A world in which the configuration file is complete, the Dimensions service
  answers every query with an empty object, and the browser shows a page without a
  result link.\<close>

definition empty_world :: world where
  "empty_world =
     \<lparr> quote = (\<lambda>s. s), quote_plus = (\<lambda>s. s),
       requests_get = (\<lambda>url. Inl RequestException),
       beautiful_soup = (\<lambda>text. NavigableString text),
       json_loads = (\<lambda>text. Inl JSONDecodeError),
       config = [(''email'', ''a@b.org''), (''dimensions_password'', ''pw''),
                 (''chrome_exe_path'', ''chromedriver'')],
       execute_query = (\<lambda>client query. Inr (PDict [])),
       set_rank = (\<lambda>v. 0),
       browse = (\<lambda>path title. Inr []) \<rparr>"

text \<open>A world in which the body of every HTTP response is the requested URL, and the
  JSON decoder returns its input as a string.\<close>

definition echo_world :: world where
  "echo_world =
     empty_world \<lparr> requests_get := (\<lambda>url. Inr url), json_loads := (\<lambda>text. Inr (PStr text)) \<rparr>"

text \<open>An OpenAIRE response with three results: the first has another title, the second
  and the third both match the title \<^verbatim>\<open>deal or no deal\<close>; only the second is open.\<close>

definition openaire_page :: node where
  "openaire_page =
     Tag ''response'' []
       [Tag ''oaf:result'' []
          [Tag ''title'' [] [NavigableString ''Another Paper''],
           Tag ''url'' [] [NavigableString ''http://example.org/0'']],
        Tag ''oaf:result'' []
          [Tag ''title'' [] [NavigableString ''Deal or No Deal?''],
           Tag ''url'' [] [NavigableString ''http://example.org/1''],
           Tag ''creator'' [] [NavigableString ''Ann''],
           Tag ''creator'' [] [NavigableString ''Bob''],
           Tag ''bestaccessright'' [(''classid'', Single ''OPEN'')] []],
        Tag ''oaf:result'' []
          [Tag ''title'' [] [NavigableString ''deal or no deal''],
           Tag ''url'' [] [NavigableString ''http://example.org/2''],
           Tag ''bestaccessright'' [(''classid'', Single ''CLOSED'')] []]]"

definition openaire_world :: world where
  "openaire_world =
     empty_world \<lparr> requests_get := (\<lambda>url. Inr ''xml''),
                   beautiful_soup := (\<lambda>text. openaire_page) \<rparr>"

text \<open>A EuropePMC response with two results that both match the title
  \<^verbatim>\<open>deal or no deal\<close>: the first has a PDF, the second has none.\<close>

definition europepmc_page :: node where
  "europepmc_page =
     Tag ''responsewrapper'' []
       [Tag ''result'' []
          [Tag ''title'' [] [NavigableString ''Deal or No Deal?''],
           Tag ''doi'' [] [NavigableString ''10.1000/first''],
           Tag ''pmcid'' [] [NavigableString ''PMC1''],
           Tag ''journaltitle'' [] [NavigableString ''Journal One''],
           Tag ''authorstring'' [] [NavigableString ''Ann A, Bob B''],
           Tag ''haspdf'' [] [NavigableString ''Y'']],
        Tag ''result'' []
          [Tag ''title'' [] [NavigableString ''deal or no deal''],
           Tag ''doi'' [] [NavigableString ''10.1000/second''],
           Tag ''pmcid'' [] [NavigableString ''PMC2''],
           Tag ''journaltitle'' [] [NavigableString ''Journal Two''],
           Tag ''authorstring'' [] [NavigableString ''Cy C''],
           Tag ''haspdf'' [] [NavigableString ''N'']]]"

definition europepmc_world :: world where
  "europepmc_world =
     empty_world \<lparr> requests_get := (\<lambda>url. Inr ''xml''),
                   beautiful_soup := (\<lambda>text. europepmc_page) \<rparr>"

text \<open>A world in which no provider has a candidate for the title: the page holds one
  result of each kind under another title and an empty result list, the Dimensions
  service answers with no publication, and the browser shows no result link.\<close>

definition no_match_page :: node where
  "no_match_page =
     Tag ''html'' []
       [Tag ''result'' [] [Tag ''title'' [] [NavigableString ''Another Paper'']],
        Tag ''oaf:result'' [] [Tag ''title'' [] [NavigableString ''Another Paper'']],
        Tag ''ol'' [(''class'', Multi [''list-group''])] []]"

definition no_match_world :: world where
  "no_match_world =
     empty_world \<lparr> requests_get := (\<lambda>url. Inr ''page''),
                   beautiful_soup := (\<lambda>text. no_match_page),
                   execute_query := (\<lambda>client query. Inr (PDict [(''publications'', PList [])])) \<rparr>"

text \<open>An OpenAIRE response in which a result without a title comes before a result
  whose title matches \<^verbatim>\<open>deal or no deal\<close>.\<close>

definition openaire_untitled_page :: node where
  "openaire_untitled_page =
     Tag ''response'' []
       [Tag ''oaf:result'' []
          [Tag ''url'' [] [NavigableString ''http://example.org/0'']],
        Tag ''oaf:result'' []
          [Tag ''title'' [] [NavigableString ''Deal or No Deal?''],
           Tag ''url'' [] [NavigableString ''http://example.org/1''],
           Tag ''creator'' [] [NavigableString ''Ann''],
           Tag ''bestaccessright'' [(''classid'', Single ''OPEN'')] []]]"

definition openaire_untitled_world :: world where
  "openaire_untitled_world =
     empty_world \<lparr> requests_get := (\<lambda>url. Inr ''xml''),
                   beautiful_soup := (\<lambda>text. openaire_untitled_page) \<rparr>"

text \<open>A world whose page holds one result of each kind, both without a title, and no
  result list.\<close>

definition untitled_page :: node where
  "untitled_page =
     Tag ''html'' []
       [Tag ''result'' [] [Tag ''doi'' [] [NavigableString ''10.1000/other'']],
        Tag ''oaf:result'' [] [Tag ''url'' [] [NavigableString ''http://example.org/0'']]]"

definition untitled_world :: world where
  "untitled_world =
     empty_world \<lparr> requests_get := (\<lambda>url. Inr ''page''),
                   beautiful_soup := (\<lambda>text. untitled_page) \<rparr>"

text \<open>A world in which the only candidate is another paper: the result list of the page
  has one entry with the handle of that paper, and the Dimensions service answers with
  the record of that paper.\<close>

definition other_paper_page :: node where
  "other_paper_page =
     Tag ''html'' []
       [Tag ''ol'' [(''class'', Multi [''list-group''])]
          [Tag ''li'' []
             [Tag ''a'' [] [NavigableString ''Another Paper''],
              Tag ''i'' [] [NavigableString ''RePEc:oth:papers:1'']]]]"

definition other_paper_world :: world where
  "other_paper_world =
     empty_world \<lparr> requests_get := (\<lambda>url. Inr ''page''),
                   beautiful_soup := (\<lambda>text. other_paper_page),
                   execute_query := (\<lambda>client query. Inr (PDict [(''publications'',
                      PList [PDict [(''title'', PStr ''Another Paper''),
                                    (''doi'', PStr ''10.1000/other''),
                                    (''terms'', PList [PStr ''a'']),
                                    (''concepts'', PList [PStr ''b'']),
                                    (''journal'', PDict [(''title'', PStr ''J'')])]])])) \<rparr>"

section \<open>Characters and strings\<close>































section \<open>Title matching\<close>

text \<open>
  Claim C1 (title_match with an absent title). The claim says that the predicate returns
  false, without raising, whenever one of the two titles is \<^verbatim>\<open>None\<close>. The code calls
  \<^verbatim>\<open>strip\<close> on the title it is given, so a \<^verbatim>\<open>None\<close> on either side raises
  \<^verbatim>\<open>AttributeError\<close>: no value is returned for \<^verbatim>\<open>title_match(None, "Some Title")\<close>,
  and the same holds with \<^verbatim>\<open>None\<close> as the second title.
\<close>

theorem title_match_none_raises:
  "title_match None (Some ''Some Title'') = Inl AttributeError
   \<and> title_match None t = Inl AttributeError
   \<and> title_match (Some s) None = Inl AttributeError"
  by (simp add: title_match_def)




section \<open>RePEc\<close>

lemma repec_get_meta_request:
  "repec_get_meta w (Some token) (Some handle) =
     (case requests_get w (''https://api.repec.org/call.cgi?code='' @ handle
                            @ ''&getref='' @ token) of
        Inl e \<Rightarrow> PNone
      | Inr response \<Rightarrow> (case json_loads w response of Inl e \<Rightarrow> PNone | Inr meta \<Rightarrow> meta))"
  by (simp add: repec_get_meta_def repec_get_api_url_def)

text \<open>
  Claim C4 (the URL of the RePEc metadata lookup). The claim says that the token fills
  \<^verbatim>\<open>code\<close> and the handle fills \<^verbatim>\<open>getref\<close>. \<^verbatim>\<open>repec_get_api_url(handle, token)\<close>
  alone does so, but \<^verbatim>\<open>repec_get_meta(token, handle)\<close> calls it with the two arguments
  in the other order: the URL that is requested has the handle in \<^verbatim>\<open>code\<close> and the
  token in \<^verbatim>\<open>getref\<close>, for every token and handle.
\<close>

theorem repec_get_meta_swaps_token_and_handle:
  "repec_get_api_url (Some handle) (Some token) =
     ''https://api.repec.org/call.cgi?code='' @ token @ ''&getref='' @ handle
   \<and> repec_get_meta echo_world (Some token) (Some handle) =
       PStr (''https://api.repec.org/call.cgi?code='' @ handle @ ''&getref='' @ token)
   \<and> repec_get_meta echo_world (Some ''TOKEN'') (Some ''RePEc:fip:fedhwp:wp-02-25'') =
       PStr ''https://api.repec.org/call.cgi?code=RePEc:fip:fedhwp:wp-02-25&getref=TOKEN''"
  by (simp add: repec_get_meta_def repec_get_api_url_def echo_world_def)

section \<open>The dispatchers\<close>

lemma lower_provider_names:
  "lower ''dimensions'' = ''dimensions''" "lower ''ssrn'' = ''ssrn''"
  "lower ''europepmc'' = ''europepmc''" "lower ''openaire'' = ''openaire''"
  "lower ''foo'' = ''foo''" "lower ''Dimensions'' = ''dimensions''"
  by code_simp+

lemma title_search_dimensions:
  "lower api_name = ''dimensions'' \<Longrightarrow> title_search w title api_name = get_dimensions_md w title"
  by (cases "get_dimensions_md w title") (simp_all add: title_search_def)

lemma title_search_ssrn:
  "lower api_name = ''ssrn'' \<Longrightarrow> title_search w title api_name = search_ssrn w title"
  by (cases "search_ssrn w title") (simp_all add: title_search_def)

text \<open>
  Claim C2 (every recognised provider name is dispatched to its adapter). For
  \<^verbatim>\<open>dimensions\<close> and \<^verbatim>\<open>ssrn\<close> the dispatcher returns what the adapter returns (the two
  lemmas above). For \<^verbatim>\<open>europepmc\<close> and \<^verbatim>\<open>openaire\<close> it calls \<^verbatim>\<open>get_epmc_page\<close> and
  \<^verbatim>\<open>oa_lookup_pub_uris\<close>, which the module does not define: the call raises
  \<^verbatim>\<open>NameError\<close> for every title, and the adapters \<^verbatim>\<open>europepmc_title_search\<close> and
  \<^verbatim>\<open>openaire_title_search\<close> are never reached.
\<close>

theorem title_search_europepmc_openaire_name_error:
  "title_search w title ''europepmc'' = Inl (NameError ''get_epmc_page'')
   \<and> title_search w title ''openaire'' = Inl (NameError ''oa_lookup_pub_uris'')"
  by (simp add: title_search_def lower_provider_names)

text \<open>
  Claim C5 (an unknown provider name fails with a distinguished error), as the claim
  states it, fails: the module has no such error. The unknown name \<^verbatim>\<open>foo\<close> ends in the
  \<^verbatim>\<open>UnboundLocalError\<close> of the result variable, and the recognised name
  \<^verbatim>\<open>dimensions\<close> ends in the very same error when the service answers with an empty
  object.
\<close>

theorem unknown_provider_error_not_distinguished:
  "title_search empty_world ''Some Title'' ''foo'' = Inl (UnboundLocalError ''titlesearch_result'')
   \<and> full_text_search empty_world ''some text'' ''foo'' = Inl (UnboundLocalError ''ss_result'')
   \<and> full_text_search empty_world ''some text'' ''dimensions'' = Inl (UnboundLocalError ''ss_result'')"
  by (simp add: title_search_def full_text_search_def lower_provider_names empty_world_def
      connect_dimensions_api_def dimensions_run_exact_string_search_def)

text \<open>
  Claim C5, amended. For every provider name outside the recognised set (after
  lower-casing: the four names for \<^verbatim>\<open>title_search\<close>, \<^verbatim>\<open>dimensions\<close> alone for
  \<^verbatim>\<open>full_text_search\<close>) the dispatcher raises \<^verbatim>\<open>UnboundLocalError\<close> for its result
  variable; it never returns a value, \<^verbatim>\<open>None\<close> included.
\<close>

theorem unknown_provider_raises_unbound_local:
  "(lower api_name \<notin> {''dimensions'', ''ssrn'', ''europepmc'', ''openaire''} \<longrightarrow>
      title_search w title api_name = Inl (UnboundLocalError ''titlesearch_result''))
   \<and> (lower api_name \<noteq> ''dimensions'' \<longrightarrow>
      full_text_search w search_term api_name = Inl (UnboundLocalError ''ss_result''))"
  by (simp add: title_search_def full_text_search_def)

theorem unknown_provider_raises_unbound_local_witness:
  "lower ''foo'' \<notin> {''dimensions'', ''ssrn'', ''europepmc'', ''openaire''}
   \<and> lower ''foo'' \<noteq> ''dimensions''
   \<and> title_search empty_world ''Some Title'' ''foo'' = Inl (UnboundLocalError ''titlesearch_result'')
   \<and> full_text_search empty_world ''some text'' ''foo'' = Inl (UnboundLocalError ''ss_result'')"
  using unknown_provider_raises_unbound_local [of "''foo''" empty_world "''Some Title''" "''some text''"]
  by (simp add: lower_provider_names)

section \<open>OpenAIRE: the first match wins\<close>

lemma openaire_results_no_match:
  "\<forall>p\<in>set rs. title_match (Some title) (get_xml_node_value p ''title'') = Inr False \<Longrightarrow>
   openaire_results title rs meta = Inr meta"
  by (induction rs) simp_all

lemma openaire_results_first:
  "\<forall>p\<in>set pre. title_match (Some title) (get_xml_node_value p ''title'') = Inr False \<Longrightarrow>
   title_match (Some title) (get_xml_node_value r ''title'') = Inr True \<Longrightarrow>
   openaire_results title (pre @ r # post) meta = Inr (openaire_entry r meta)"
  by (induction pre) simp_all

lemma openaire_entry_empty:
  "openaire_entry r [] =
     [(''url'', opt_str (get_xml_node_value r ''url'')),
      (''authors'', PList (map (\<lambda>a. PStr (get_text a)) (find_all r ''creator'' []))),
      (''open'', PBool (\<exists>n\<in>set (descendants r).
                          matches_tag ''bestaccessright'' [(''classid'', ''OPEN'')] n))]"
proof -
  have "(0 < length (find_all r ''bestaccessright'' [(''classid'', ''OPEN'')])) =
        (\<exists>n\<in>set (descendants r). matches_tag ''bestaccessright'' [(''classid'', ''OPEN'')] n)"
    unfolding find_all_def length_greater_0_conv by (simp only: filter_empty_conv) blast
  then show ?thesis by (simp add: openaire_entry_def Let_def)
qed

text \<open>Let \<open>r\<close> be a result such that \<^verbatim>\<open>title_match\<close> returns false on every result
  before it and true on \<open>r\<close>. Then \<^verbatim>\<open>openaire_title_search\<close> returns the record with
  the url of \<open>r\<close>, the texts of the creators of \<open>r\<close> and the flag \<^verbatim>\<open>open\<close>, whatever
  results follow \<open>r\<close>; the flag is true exactly when some \<^verbatim>\<open>bestaccessright\<close> element
  below \<open>r\<close> has the class id \<^verbatim>\<open>OPEN\<close>.\<close>

lemma openaire_first_match_wins:
  assumes "requests_get w (openaire_get_api_url w title) = Inr response"
    and "find_all (beautiful_soup w response) ''oaf:result'' [] = pre @ r # post"
    and "\<forall>p\<in>set pre. title_match (Some title) (get_xml_node_value p ''title'') = Inr False"
    and "title_match (Some title) (get_xml_node_value r ''title'') = Inr True"
  shows "openaire_title_search w title =
     Inr [(''url'', opt_str (get_xml_node_value r ''url'')),
          (''authors'', PList (map (\<lambda>a. PStr (get_text a)) (find_all r ''creator'' []))),
          (''open'', PBool (\<exists>n\<in>set (descendants r).
                              matches_tag ''bestaccessright'' [(''classid'', ''OPEN'')] n))]"
proof -
  have "openaire_title_search w title = openaire_results title (pre @ r # post) []"
    by (simp add: openaire_title_search_def assms(1,2))
  also have "\<dots> = Inr (openaire_entry r [])"
    using assms(3,4) by (rule openaire_results_first)
  finally show ?thesis by (simp only: openaire_entry_empty)
qed

text \<open>An instance: a response with one result under another title and two results that
  match; the fields are those of the first of the two.\<close>

lemma openaire_page_results:
  "find_all openaire_page ''oaf:result'' [] =
     [Tag ''oaf:result'' []
          [Tag ''title'' [] [NavigableString ''Another Paper''],
           Tag ''url'' [] [NavigableString ''http://example.org/0'']]]
     @ Tag ''oaf:result'' []
          [Tag ''title'' [] [NavigableString ''Deal or No Deal?''],
           Tag ''url'' [] [NavigableString ''http://example.org/1''],
           Tag ''creator'' [] [NavigableString ''Ann''],
           Tag ''creator'' [] [NavigableString ''Bob''],
           Tag ''bestaccessright'' [(''classid'', Single ''OPEN'')] []]
     # [Tag ''oaf:result'' []
          [Tag ''title'' [] [NavigableString ''deal or no deal''],
           Tag ''url'' [] [NavigableString ''http://example.org/2''],
           Tag ''bestaccessright'' [(''classid'', Single ''CLOSED'')] []]]"
  by code_simp

lemma openaire_first_match_example:
  "openaire_title_search openaire_world ''deal or no deal'' =
     Inr [(''url'', PStr ''http://example.org/1''),
          (''authors'', PList [PStr ''Ann'', PStr ''Bob'']),
          (''open'', PBool True)]"
proof -
  let ?r0 = "Tag ''oaf:result'' []
          [Tag ''title'' [] [NavigableString ''Another Paper''],
           Tag ''url'' [] [NavigableString ''http://example.org/0'']]"
  let ?r1 = "Tag ''oaf:result'' []
          [Tag ''title'' [] [NavigableString ''Deal or No Deal?''],
           Tag ''url'' [] [NavigableString ''http://example.org/1''],
           Tag ''creator'' [] [NavigableString ''Ann''],
           Tag ''creator'' [] [NavigableString ''Bob''],
           Tag ''bestaccessright'' [(''classid'', Single ''OPEN'')] []]"
  let ?r2 = "Tag ''oaf:result'' []
          [Tag ''title'' [] [NavigableString ''deal or no deal''],
           Tag ''url'' [] [NavigableString ''http://example.org/2''],
           Tag ''bestaccessright'' [(''classid'', Single ''CLOSED'')] []]"
  have 1: "requests_get openaire_world (openaire_get_api_url openaire_world ''deal or no deal'') = Inr ''xml''"
    by (simp add: openaire_world_def)
  have 2: "find_all (beautiful_soup openaire_world ''xml'') ''oaf:result'' [] = [?r0] @ ?r1 # [?r2]"
    using openaire_page_results by (simp add: openaire_world_def)
  have "title_match (Some ''deal or no deal'') (get_xml_node_value ?r0 ''title'') = Inr False"
    by code_simp
  then have 3: "\<forall>p\<in>set [?r0]. title_match (Some ''deal or no deal'') (get_xml_node_value p ''title'') = Inr False"
    by simp
  have 4: "title_match (Some ''deal or no deal'') (get_xml_node_value ?r1 ''title'') = Inr True"
    by code_simp
  have 5: "get_xml_node_value ?r1 ''url'' = Some ''http://example.org/1''"
    by code_simp
  have 6: "map (\<lambda>a. PStr (get_text a)) (find_all ?r1 ''creator'' []) = [PStr ''Ann'', PStr ''Bob'']"
    by code_simp
  have 7: "(\<exists>n\<in>set (descendants ?r1). matches_tag ''bestaccessright'' [(''classid'', ''OPEN'')] n) = True"
    by code_simp
  show ?thesis
    using openaire_first_match_wins [OF 1 2 3 4] unfolding 5 6 7 by simp
qed

text \<open>
  Claim C7 (OpenAIRE, the first match wins, for every response list). The claim does not
  hold for every response list: when a result without a title comes before the first
  result whose title matches, the loop calls \<^verbatim>\<open>title_match\<close> with \<^verbatim>\<open>None\<close> and
  \<^verbatim>\<open>openaire_title_search\<close> raises \<^verbatim>\<open>AttributeError\<close> instead of returning the fields of
  the matching result. Without the untitled result in front, the same matching result
  is returned.
\<close>

theorem openaire_untitled_entry_raises:
  "openaire_title_search openaire_untitled_world ''deal or no deal'' = Inl AttributeError
   \<and> find_all openaire_untitled_page ''oaf:result'' [] =
       [Tag ''oaf:result'' []
          [Tag ''url'' [] [NavigableString ''http://example.org/0'']],
        Tag ''oaf:result'' []
          [Tag ''title'' [] [NavigableString ''Deal or No Deal?''],
           Tag ''url'' [] [NavigableString ''http://example.org/1''],
           Tag ''creator'' [] [NavigableString ''Ann''],
           Tag ''bestaccessright'' [(''classid'', Single ''OPEN'')] []]]
   \<and> title_match (Some ''deal or no deal'') (Some ''Deal or No Deal?'') = Inr True
   \<and> openaire_results ''deal or no deal''
         [Tag ''oaf:result'' []
            [Tag ''title'' [] [NavigableString ''Deal or No Deal?''],
             Tag ''url'' [] [NavigableString ''http://example.org/1''],
             Tag ''creator'' [] [NavigableString ''Ann''],
             Tag ''bestaccessright'' [(''classid'', Single ''OPEN'')] []]] [] =
       Inr [(''url'', PStr ''http://example.org/1''), (''authors'', PList [PStr ''Ann'']),
            (''open'', PBool True)]"
  by code_simp

section \<open>EuropePMC: the last match\<close>

text \<open>Each match overwrites the four fields \<^verbatim>\<open>doi\<close>, \<^verbatim>\<open>pmcid\<close>, \<^verbatim>\<open>journal\<close> and
  \<^verbatim>\<open>authors\<close>, so they are those of the last match; \<^verbatim>\<open>pdf\<close> is written only by a
  match that has a PDF and is otherwise left as the earlier results set it.\<close>

lemma europepmc_results_no_match:
  "\<forall>p\<in>set rs. title_match (Some title) (get_xml_node_value p ''title'') = Inr False \<Longrightarrow>
   europepmc_results title rs meta = Inr meta"
  by (induction rs) simp_all

lemma europepmc_results_append:
  "europepmc_results title (xs @ ys) meta =
     (case europepmc_results title xs meta of
        Inl e \<Rightarrow> Inl e
      | Inr m \<Rightarrow> europepmc_results title ys m)"
  by (induction xs arbitrary: meta) (auto split: sum.splits)

lemma europepmc_entry_fields:
  assumes "get_xml_node_value r ''authorstring'' = Some a"
  shows "\<exists>m'. europepmc_entry r m = Inr m'
      \<and> map_of m' ''doi'' = Some (opt_str (get_xml_node_value r ''doi''))
      \<and> map_of m' ''pmcid'' = Some (opt_str (get_xml_node_value r ''pmcid''))
      \<and> map_of m' ''journal'' = Some (opt_str (get_xml_node_value r ''journaltitle''))
      \<and> map_of m' ''authors'' = Some (PList (map PStr (py_split '', '' [] a)))
      \<and> map_of m' ''pdf'' =
          (if get_xml_node_value r ''haspdf'' = Some ''Y''
           then Some (PStr (''http://europepmc.org/articles/''
                  @ format_opt (get_xml_node_value r ''pmcid'') @ ''?pdf=render''))
           else map_of m ''pdf'')"
  using assms by (simp add: europepmc_entry_def Let_def update_conv')

lemma europepmc_last_match:
  assumes "europepmc_results title pre meta = Inr m"
    and "title_match (Some title) (get_xml_node_value r ''title'') = Inr True"
    and "get_xml_node_value r ''authorstring'' = Some a"
    and "\<forall>p\<in>set post. title_match (Some title) (get_xml_node_value p ''title'') = Inr False"
  shows "\<exists>m'. europepmc_results title (pre @ r # post) meta = Inr m'
      \<and> map_of m' ''doi'' = Some (opt_str (get_xml_node_value r ''doi''))
      \<and> map_of m' ''pmcid'' = Some (opt_str (get_xml_node_value r ''pmcid''))
      \<and> map_of m' ''journal'' = Some (opt_str (get_xml_node_value r ''journaltitle''))
      \<and> map_of m' ''authors'' = Some (PList (map PStr (py_split '', '' [] a)))
      \<and> map_of m' ''pdf'' =
          (if get_xml_node_value r ''haspdf'' = Some ''Y''
           then Some (PStr (''http://europepmc.org/articles/''
                  @ format_opt (get_xml_node_value r ''pmcid'') @ ''?pdf=render''))
           else map_of m ''pdf'')"
proof -
  from europepmc_entry_fields [OF assms(3), of m]
  obtain m' where e: "europepmc_entry r m = Inr m'"
    and f: "map_of m' ''doi'' = Some (opt_str (get_xml_node_value r ''doi''))
      \<and> map_of m' ''pmcid'' = Some (opt_str (get_xml_node_value r ''pmcid''))
      \<and> map_of m' ''journal'' = Some (opt_str (get_xml_node_value r ''journaltitle''))
      \<and> map_of m' ''authors'' = Some (PList (map PStr (py_split '', '' [] a)))
      \<and> map_of m' ''pdf'' =
          (if get_xml_node_value r ''haspdf'' = Some ''Y''
           then Some (PStr (''http://europepmc.org/articles/''
                  @ format_opt (get_xml_node_value r ''pmcid'') @ ''?pdf=render''))
           else map_of m ''pdf'')"
    by blast
  have "europepmc_results title (pre @ r # post) meta = europepmc_results title (r # post) m"
    by (simp add: europepmc_results_append assms(1))
  also have "\<dots> = europepmc_results title post m'"
    by (simp add: assms(2) e)
  also have "\<dots> = Inr m'"
    using assms(4) by (rule europepmc_results_no_match)
  finally show ?thesis using f by blast
qed

text \<open>
  Claim C6 (EuropePMC, the last match wins and no field is carried over). With two
  matching results, the first with a PDF and the second without, the record returned
  has the \<^verbatim>\<open>doi\<close>, \<^verbatim>\<open>pmcid\<close>, \<^verbatim>\<open>journal\<close> and \<^verbatim>\<open>authors\<close> of the second result and
  the \<^verbatim>\<open>pdf\<close> link of the first: the link names \<^verbatim>\<open>PMC1\<close> next to the \<^verbatim>\<open>pmcid\<close>
  \<^verbatim>\<open>PMC2\<close>. The claim says that no field comes from an earlier match.
\<close>

theorem europepmc_pdf_carried_over:
  "europepmc_title_search europepmc_world ''deal or no deal'' =
     Inr [(''doi'', PStr ''10.1000/second''), (''pmcid'', PStr ''PMC2''),
          (''journal'', PStr ''Journal Two''), (''authors'', PList [PStr ''Cy C'']),
          (''pdf'', PStr ''http://europepmc.org/articles/PMC1?pdf=render'')]"
  by code_simp

section \<open>Lookups without a candidate\<close>

text \<open>
  Claim C3 (no matching candidate gives no result, without raising, for every provider),
  as the claim states it, fails in each of these ways. The SSRN search raises the
  \<^verbatim>\<open>NoSuchElementException\<close> of the browser driver when the results page has no result
  link. The Dimensions lookup and the RePEc handle step do not compare titles: when the
  only candidate is another paper, the first returns the record of that paper under the
  queried title and the second returns its handle. On a response whose results have no
  title the EuropePMC and the OpenAIRE lookup raise \<^verbatim>\<open>AttributeError\<close>, and so does the
  RePEc handle step on a page without the result list.
\<close>

theorem no_candidate_counterexamples:
  "search_ssrn empty_world ''deal or no deal'' = Inl NoSuchElementException
   \<and> get_dimensions_md other_paper_world ''deal or no deal'' =
       Inr (PDict [(''doi'', PStr ''10.1000/other''),
                   (''keywords'', PList [PStr ''a'', PStr ''b'']),
                   (''journal_title'', PStr ''J''),
                   (''title'', PStr ''deal or no deal'')])
   \<and> title_match (Some ''deal or no deal'') (Some ''Another Paper'') = Inr False
   \<and> repec_get_handle other_paper_world ''deal or no deal'' = Inr (Some ''RePEc:oth:papers:1'')
   \<and> europepmc_title_search untitled_world ''deal or no deal'' = Inl AttributeError
   \<and> openaire_title_search untitled_world ''deal or no deal'' = Inl AttributeError
   \<and> repec_get_handle untitled_world ''deal or no deal'' = Inl AttributeError"
  by code_simp

lemma search_title_empty:
  assumes "execute_query w client
     (''search publications in title_only for '' @ [CHR 0x22, CHR 0x5C, CHR 0x22]
        @ concat (map (\<lambda>c. if c = CHR 0x22 then [CHR 0x5C, CHR 0x22] else [c]) title)
        @ [CHR 0x5C, CHR 0x22, CHR 0x22] @ '' return publications[all]'') = Inr (PDict ret)"
    and "map_of ret ''publications'' = Some (PList [])"
  shows "search_title w title client = Inr PNone"
  using assms by (simp add: search_title_def Let_def)

lemma title_match_titled:
  "\<exists>t. get_xml_node_value r ''title'' = Some t \<and> title_match (Some title) (Some t) = Inr False
   \<Longrightarrow> title_match (Some title) (get_xml_node_value r ''title'') = Inr False"
  by auto

text \<open>
  Claim C3, amended. Provided the request returns a response:
  the EuropePMC and the OpenAIRE lookup return an empty record when every result of the
  response has a title and none of these titles matches the queried title;
  the RePEc handle step returns \<^verbatim>\<open>None\<close> when the page has the result list and the
  list has no element in it;
  the Dimensions lookup returns \<^verbatim>\<open>None\<close> when the configuration has the two
  credentials and the service answers with an object whose list of publications is
  empty;
  the SSRN search raises \<^verbatim>\<open>NoSuchElementException\<close> when the configuration has the path
  of the browser and the results page has no result link.
\<close>

theorem no_candidate_results:
  "(requests_get w (europepmc_get_api_url w title) = Inr response1
      \<and> (\<forall>r\<in>set (find_all (beautiful_soup w response1) ''result'' []).
            \<exists>t. get_xml_node_value r ''title'' = Some t
               \<and> title_match (Some title) (Some t) = Inr False)
      \<longrightarrow> europepmc_title_search w title = Inr [])
   \<and> (requests_get w (openaire_get_api_url w title) = Inr response2
      \<and> (\<forall>r\<in>set (find_all (beautiful_soup w response2) ''oaf:result'' []).
            \<exists>t. get_xml_node_value r ''title'' = Some t
               \<and> title_match (Some title) (Some t) = Inr False)
      \<longrightarrow> openaire_title_search w title = Inr [])
   \<and> (requests_get w (repec_get_cgi_url w title) = Inr response3
      \<and> find_first (beautiful_soup w response3) ''ol'' [(''class'', ''list-group'')] = Some ol
      \<and> findChildren ol = []
      \<longrightarrow> repec_get_handle w title = Inr None)
   \<and> (map_of (config w) ''email'' = Some username
      \<and> map_of (config w) ''dimensions_password'' = Some password
      \<and> (\<forall>query. execute_query w (username, password) query = Inr (PDict ret))
      \<and> map_of ret ''publications'' = Some (PList [])
      \<longrightarrow> get_dimensions_md w title = Inr PNone)
   \<and> (map_of (config w) ''chrome_exe_path'' = Some chrome_path
      \<and> browse w chrome_path title = Inr []
      \<longrightarrow> search_ssrn w title = Inl NoSuchElementException)"
proof (intro conjI impI)
  assume a: "requests_get w (europepmc_get_api_url w title) = Inr response1
      \<and> (\<forall>r\<in>set (find_all (beautiful_soup w response1) ''result'' []).
            \<exists>t. get_xml_node_value r ''title'' = Some t
               \<and> title_match (Some title) (Some t) = Inr False)"
  then have "\<forall>r\<in>set (find_all (beautiful_soup w response1) ''result'' []).
      title_match (Some title) (get_xml_node_value r ''title'') = Inr False"
    using title_match_titled by blast
  with a show "europepmc_title_search w title = Inr []"
    by (simp add: europepmc_title_search_def europepmc_results_no_match)
next
  assume a: "requests_get w (openaire_get_api_url w title) = Inr response2
      \<and> (\<forall>r\<in>set (find_all (beautiful_soup w response2) ''oaf:result'' []).
            \<exists>t. get_xml_node_value r ''title'' = Some t
               \<and> title_match (Some title) (Some t) = Inr False)"
  then have "\<forall>r\<in>set (find_all (beautiful_soup w response2) ''oaf:result'' []).
      title_match (Some title) (get_xml_node_value r ''title'') = Inr False"
    using title_match_titled by blast
  with a show "openaire_title_search w title = Inr []"
    by (simp add: openaire_title_search_def openaire_results_no_match)
next
  assume "requests_get w (repec_get_cgi_url w title) = Inr response3
      \<and> find_first (beautiful_soup w response3) ''ol'' [(''class'', ''list-group'')] = Some ol
      \<and> findChildren ol = []"
  then show "repec_get_handle w title = Inr None"
    by (simp add: repec_get_handle_def)
next
  assume a: "map_of (config w) ''email'' = Some username
      \<and> map_of (config w) ''dimensions_password'' = Some password
      \<and> (\<forall>query. execute_query w (username, password) query = Inr (PDict ret))
      \<and> map_of ret ''publications'' = Some (PList [])"
  then have "search_title w title (username, password) = Inr PNone"
    by (intro search_title_empty [of _ _ _ ret]) simp_all
  with a show "get_dimensions_md w title = Inr PNone"
    by (simp add: get_dimensions_md_def connect_dimensions_api_def dimensions_title_search_def
        dimensions_from_title_def)
next
  assume "map_of (config w) ''chrome_exe_path'' = Some chrome_path
      \<and> browse w chrome_path title = Inr []"
  then show "search_ssrn w title = Inl NoSuchElementException"
    by (simp add: search_ssrn_def)
qed

lemma no_match_page_facts:
  "find_all no_match_page ''result'' [] =
     [Tag ''result'' [] [Tag ''title'' [] [NavigableString ''Another Paper'']]]"
  "find_all no_match_page ''oaf:result'' [] =
     [Tag ''oaf:result'' [] [Tag ''title'' [] [NavigableString ''Another Paper'']]]"
  "find_first no_match_page ''ol'' [(''class'', ''list-group'')] =
     Some (Tag ''ol'' [(''class'', Multi [''list-group''])] [])"
  "findChildren (Tag ''ol'' [(''class'', Multi [''list-group''])] []) = []"
  "get_xml_node_value (Tag ''result'' [] [Tag ''title'' [] [NavigableString ''Another Paper'']])
        ''title'' = Some ''Another Paper''"
  "get_xml_node_value (Tag ''oaf:result'' [] [Tag ''title'' [] [NavigableString ''Another Paper'']])
        ''title'' = Some ''Another Paper''"
  "title_match (Some ''deal or no deal'') (Some ''Another Paper'') = Inr False"
  by code_simp+

theorem no_candidate_results_witness:
  "europepmc_title_search no_match_world ''deal or no deal'' = Inr []
   \<and> openaire_title_search no_match_world ''deal or no deal'' = Inr []
   \<and> repec_get_handle no_match_world ''deal or no deal'' = Inr None
   \<and> get_dimensions_md no_match_world ''deal or no deal'' = Inr PNone
   \<and> search_ssrn no_match_world ''deal or no deal'' = Inl NoSuchElementException"
  using no_candidate_results [of no_match_world "''deal or no deal''" "''page''" "''page''"
      "''page''" "Tag ''ol'' [(''class'', Multi [''list-group''])] []"
      "''a@b.org''" "''pw''" "[(''publications'', PList [])]" "''chromedriver''"]
  by (simp add: no_match_world_def empty_world_def no_match_page_facts)

section \<open>Dimensions: the shape of the record\<close>

lemma set_set_order: "set (set_order h xs) = set xs"
  by (simp add: set_order_def)

lemma distinct_set_order: "distinct (set_order h xs)"
  by (simp add: set_order_def)

lemma dict_comp_ok:
  "\<forall>k\<in>set ks. map_of src k \<noteq> None \<Longrightarrow>
   \<exists>r. dict_comp ks src acc = Inr r
       \<and> map_of r = (\<lambda>k. if k \<in> set ks then map_of src k else map_of acc k)"
proof (induction ks arbitrary: acc)
  case Nil
  then show ?case by simp
next
  case (Cons k ks)
  then obtain v where v: "map_of src k = Some v" by auto
  from Cons.prems have "\<forall>k\<in>set ks. map_of src k \<noteq> None" by simp
  from Cons.IH [OF this, of "AList.update k v acc"]
  obtain r where r: "dict_comp ks src (AList.update k v acc) = Inr r"
    and m: "map_of r = (\<lambda>x. if x \<in> set ks then map_of src x else map_of (AList.update k v acc) x)"
    by blast
  have "map_of r = (\<lambda>x. if x \<in> set (k # ks) then map_of src x else map_of acc x)"
    unfolding m by (auto simp: update_conv' fun_eq_iff v)
  with r v show ?case by simp
qed

lemma pubs_dict_ok:
  "\<exists>pubs. dict_comp (set_order g (filter (\<lambda>k. k \<in> set ks) (map fst d))) d [] = Inr pubs
      \<and> map_of pubs = (\<lambda>k. if k \<in> set ks then map_of d k else None)"
proof -
  let ?fk = "set_order g (filter (\<lambda>k. k \<in> set ks) (map fst d))"
  have "\<forall>k\<in>set ?fk. map_of d k \<noteq> None"
    by (auto simp: set_set_order map_of_eq_None_iff)
  from dict_comp_ok [OF this, of "[]"]
  obtain pubs where p: "dict_comp ?fk d [] = Inr pubs"
    and m: "map_of pubs = (\<lambda>k. if k \<in> set ?fk then map_of d k else map_of [] k)" by blast
  have "map_of pubs = (\<lambda>k. if k \<in> set ks then map_of d k else None)"
  proof
    fix k
    show "map_of pubs k = (if k \<in> set ks then map_of d k else None)"
    proof (cases "map_of d k")
      case None
      then show ?thesis by (simp add: m set_set_order)
    next
      case (Some v)
      then have "k \<in> set (map fst d)" using map_of_eq_None_iff [of d k] by auto
      then show ?thesis by (simp add: m set_set_order)
    qed
  qed
  with p show ?thesis by blast
qed


lemma format_dimensions_unfold:
  assumes pubs: "dict_comp (set_order (\<lambda>k. h (PStr k))
                 (filter (\<lambda>k. k \<in> set [''authors'', ''doi'', ''linkout'', ''concepts'', ''terms'',
                                          ''journal'']) (map fst d))) d [] = Inr pubs"
  shows "format_dimensions h (PDict d) =
    (case getitem (PDict pubs) ''terms'' of
                Inl e \<Rightarrow> Inl e
              | Inr terms \<Rightarrow>
           (case getitem (PDict pubs) ''concepts'' of
                Inl e \<Rightarrow> Inl e
              | Inr concepts \<Rightarrow>
           (case keywords_of h terms concepts of
                Inl e \<Rightarrow> Inl e
              | Inr keywords \<Rightarrow>
           (case getitem (PDict pubs) ''journal'' of
                Inl e \<Rightarrow> Inl e
              | Inr journal \<Rightarrow>
           (case getitem journal ''title'' of
                Inl e \<Rightarrow> Inl e
              | Inr journal_title \<Rightarrow>
           (case dict_comp (set_order (\<lambda>k. h (PStr k))
                   (filter (\<lambda>k. k \<in> set [''authors'', ''doi'', ''linkout'', ''keywords'',
                                           ''journal_title''])
                      (set_order (\<lambda>k. h (PStr k))
                 (filter (\<lambda>k. k \<in> set [''authors'', ''doi'', ''linkout'', ''concepts'', ''terms'',
                                          ''journal'']) (map fst d))))
                   @ [''keywords'', ''journal_title''])
                  (AList.update ''journal_title'' journal_title
                               (AList.update ''keywords'' keywords pubs)) [] of
                 Inl e \<Rightarrow> Inl e
               | Inr pubs_dict_final \<Rightarrow> Inr (PDict pubs_dict_final)))))))"
  unfolding format_dimensions_def Let_def pyval.case pubs sum.case ..


lemma format_dimensions_pubs:
  obtains pubs where
    "dict_comp (set_order (\<lambda>k. h (PStr k))
                 (filter (\<lambda>k. k \<in> set [''authors'', ''doi'', ''linkout'', ''concepts'', ''terms'',
                                          ''journal'']) (map fst d))) d [] = Inr pubs"
    and "map_of pubs = (\<lambda>k. if k \<in> set [''authors'', ''doi'', ''linkout'', ''concepts'',
                                          ''terms'', ''journal''] then map_of d k else None)"
  using pubs_dict_ok [of "\<lambda>k. h (PStr k)"
      "[''authors'', ''doi'', ''linkout'', ''concepts'', ''terms'', ''journal'']" d]
  by blast

lemma format_dimensions_missing_terms:
  assumes "map_of d ''terms'' = None"
  shows "format_dimensions h (PDict d) = Inl (KeyError ''terms'')"
proof -
  obtain pubs where p: "dict_comp (set_order (\<lambda>k. h (PStr k))
                 (filter (\<lambda>k. k \<in> set [''authors'', ''doi'', ''linkout'', ''concepts'', ''terms'',
                                          ''journal'']) (map fst d))) d [] = Inr pubs"
    and m: "map_of pubs = (\<lambda>k. if k \<in> set [''authors'', ''doi'', ''linkout'', ''concepts'',
                                          ''terms'', ''journal''] then map_of d k else None)"
    by (rule format_dimensions_pubs)
  have "getitem (PDict pubs) ''terms'' = Inl (KeyError ''terms'')"
    by (simp add: m assms)
  then show ?thesis by (simp add: format_dimensions_unfold [OF p])
qed

lemma format_dimensions_missing_concepts:
  assumes "map_of d ''terms'' = Some v" and "map_of d ''concepts'' = None"
  shows "format_dimensions h (PDict d) = Inl (KeyError ''concepts'')"
proof -
  obtain pubs where p: "dict_comp (set_order (\<lambda>k. h (PStr k))
                 (filter (\<lambda>k. k \<in> set [''authors'', ''doi'', ''linkout'', ''concepts'', ''terms'',
                                          ''journal'']) (map fst d))) d [] = Inr pubs"
    and m: "map_of pubs = (\<lambda>k. if k \<in> set [''authors'', ''doi'', ''linkout'', ''concepts'',
                                          ''terms'', ''journal''] then map_of d k else None)"
    by (rule format_dimensions_pubs)
  have "getitem (PDict pubs) ''terms'' = Inr v"
    and "getitem (PDict pubs) ''concepts'' = Inl (KeyError ''concepts'')"
    by (simp_all add: m assms)
  then show ?thesis by (simp add: format_dimensions_unfold [OF p])
qed

lemma format_dimensions_missing_journal:
  assumes "map_of d ''terms'' = Some (PList ts)" and "map_of d ''concepts'' = Some (PList cs)"
    and "list_all hashable (ts @ cs)" and "map_of d ''journal'' = None"
  shows "format_dimensions h (PDict d) = Inl (KeyError ''journal'')"
proof -
  obtain pubs where p: "dict_comp (set_order (\<lambda>k. h (PStr k))
                 (filter (\<lambda>k. k \<in> set [''authors'', ''doi'', ''linkout'', ''concepts'', ''terms'',
                                          ''journal'']) (map fst d))) d [] = Inr pubs"
    and m: "map_of pubs = (\<lambda>k. if k \<in> set [''authors'', ''doi'', ''linkout'', ''concepts'',
                                          ''terms'', ''journal''] then map_of d k else None)"
    by (rule format_dimensions_pubs)
  have "getitem (PDict pubs) ''terms'' = Inr (PList ts)"
    and "getitem (PDict pubs) ''concepts'' = Inr (PList cs)"
    and "getitem (PDict pubs) ''journal'' = Inl (KeyError ''journal'')"
    by (simp_all add: m assms)
  moreover have "keywords_of h (PList ts) (PList cs) = Inr (PList (set_order h (ts @ cs)))"
    using assms(3) by simp
  ultimately show ?thesis by (simp add: format_dimensions_unfold [OF p])
qed

lemma format_dimensions_missing_title:
  assumes "map_of d ''terms'' = Some (PList ts)" and "map_of d ''concepts'' = Some (PList cs)"
    and "list_all hashable (ts @ cs)" and "map_of d ''journal'' = Some (PDict j)"
    and "map_of j ''title'' = None"
  shows "format_dimensions h (PDict d) = Inl (KeyError ''title'')"
proof -
  obtain pubs where p: "dict_comp (set_order (\<lambda>k. h (PStr k))
                 (filter (\<lambda>k. k \<in> set [''authors'', ''doi'', ''linkout'', ''concepts'', ''terms'',
                                          ''journal'']) (map fst d))) d [] = Inr pubs"
    and m: "map_of pubs = (\<lambda>k. if k \<in> set [''authors'', ''doi'', ''linkout'', ''concepts'',
                                          ''terms'', ''journal''] then map_of d k else None)"
    by (rule format_dimensions_pubs)
  have "getitem (PDict pubs) ''terms'' = Inr (PList ts)"
    and "getitem (PDict pubs) ''concepts'' = Inr (PList cs)"
    and "getitem (PDict pubs) ''journal'' = Inr (PDict j)"
    and "getitem (PDict j) ''title'' = Inl (KeyError ''title'')"
    by (simp_all add: m assms)
  moreover have "keywords_of h (PList ts) (PList cs) = Inr (PList (set_order h (ts @ cs)))"
    using assms(3) by simp
  ultimately show ?thesis by (simp add: format_dimensions_unfold [OF p])
qed

lemma format_dimensions_ok:
  assumes "map_of d ''terms'' = Some (PList ts)" and "map_of d ''concepts'' = Some (PList cs)"
    and "list_all hashable (ts @ cs)" and "map_of d ''journal'' = Some (PDict j)"
    and "map_of j ''title'' = Some t"
  shows "\<exists>out. format_dimensions h (PDict d) = Inr (PDict out)
     \<and> map_of out = (\<lambda>k. if k = ''keywords'' then Some (PList (set_order h (ts @ cs)))
                         else if k = ''journal_title'' then Some t
                         else if k \<in> {''authors'', ''doi'', ''linkout''} then map_of d k
                         else None)"
proof -
  obtain pubs where p: "dict_comp (set_order (\<lambda>k. h (PStr k))
                 (filter (\<lambda>k. k \<in> set [''authors'', ''doi'', ''linkout'', ''concepts'', ''terms'',
                                          ''journal'']) (map fst d))) d [] = Inr pubs"
    and m: "map_of pubs = (\<lambda>k. if k \<in> set [''authors'', ''doi'', ''linkout'', ''concepts'',
                                          ''terms'', ''journal''] then map_of d k else None)"
    by (rule format_dimensions_pubs)
  define fk where "fk = set_order (\<lambda>k. h (PStr k))
                 (filter (\<lambda>k. k \<in> set [''authors'', ''doi'', ''linkout'', ''concepts'', ''terms'',
                                          ''journal'']) (map fst d))"
  define kw where "kw = PList (set_order h (ts @ cs))"
  define pubs' where "pubs' = AList.update ''journal_title'' t (AList.update ''keywords'' kw pubs)"
  define final where "final = set_order (\<lambda>k. h (PStr k))
                   (filter (\<lambda>k. k \<in> set [''authors'', ''doi'', ''linkout'', ''keywords'',
                                           ''journal_title'']) fk) @ [''keywords'', ''journal_title'']"
  have g: "getitem (PDict pubs) ''terms'' = Inr (PList ts)"
    "getitem (PDict pubs) ''concepts'' = Inr (PList cs)"
    "getitem (PDict pubs) ''journal'' = Inr (PDict j)"
    "getitem (PDict j) ''title'' = Inr t"
    by (simp_all add: m assms)
  have k: "keywords_of h (PList ts) (PList cs) = Inr kw"
    using assms(3) by (simp add: kw_def)
  have m': "map_of pubs' = (map_of pubs)(''keywords'' \<mapsto> kw, ''journal_title'' \<mapsto> t)"
    by (simp add: pubs'_def update_conv')
  have sfk: "set fk = {k \<in> set [''authors'', ''doi'', ''linkout'', ''concepts'', ''terms'',
                                          ''journal'']. k \<in> fst ` set d}"
    by (auto simp: fk_def set_set_order)
  have sfinal: "set final = {k \<in> set [''authors'', ''doi'', ''linkout'']. k \<in> fst ` set d}
      \<union> {''keywords'', ''journal_title''}"
    unfolding final_def set_append set_set_order set_filter sfk by auto
  have "\<forall>k\<in>set final. map_of pubs' k \<noteq> None"
    unfolding sfinal m' m by (auto intro: weak_map_of_SomeI)
  from dict_comp_ok [OF this, of "[]"]
  obtain out where o: "dict_comp final pubs' [] = Inr out"
    and mo: "map_of out = (\<lambda>k. if k \<in> set final then map_of pubs' k else map_of [] k)"
    by blast
  have f: "format_dimensions h (PDict d) = Inr (PDict out)"
    using g k o unfolding final_def pubs'_def fk_def
    by (simp add: format_dimensions_unfold [OF p])
  have "map_of out = (\<lambda>k. if k = ''keywords'' then Some kw
                         else if k = ''journal_title'' then Some t
                         else if k \<in> {''authors'', ''doi'', ''linkout''} then map_of d k
                         else None)"
  proof
    fix k
    show "map_of out k = (if k = ''keywords'' then Some kw
                         else if k = ''journal_title'' then Some t
                         else if k \<in> {''authors'', ''doi'', ''linkout''} then map_of d k
                         else None)"
    proof (cases "map_of d k")
      case None
      then have "k \<notin> fst ` set d" by (simp add: map_of_eq_None_iff)
      with None show ?thesis unfolding mo sfinal m' m by auto
    next
      case (Some v)
      then have "k \<in> fst ` set d" using map_of_eq_None_iff [of d k] by auto
      then show ?thesis unfolding mo sfinal m' m by auto
    qed
  qed
  with f show ?thesis unfolding kw_def by blast
qed

text \<open>
  Claim C8 (format_dimensions). For every input record with the keys \<^verbatim>\<open>terms\<close> and
  \<^verbatim>\<open>concepts\<close>, both lists of hashable values such as strings, and a \<^verbatim>\<open>journal\<close>
  object with a \<^verbatim>\<open>title\<close>, \<^verbatim>\<open>format_dimensions\<close> returns a record in which
  \<^verbatim>\<open>keywords\<close> is a list without duplicates whose elements are those of the terms and
  the concepts (in whatever order the set gives them), \<^verbatim>\<open>journal_title\<close> is the title
  of the journal, the keys \<^verbatim>\<open>terms\<close>, \<^verbatim>\<open>concepts\<close> and \<^verbatim>\<open>journal\<close> are absent, and
  \<^verbatim>\<open>authors\<close>, \<^verbatim>\<open>doi\<close> and \<^verbatim>\<open>linkout\<close> are as in the input; no other key is there.
\<close>

theorem format_dimensions_keywords_and_journal_title:
  assumes "map_of d ''terms'' = Some (PList ts)"
    and "map_of d ''concepts'' = Some (PList cs)"
    and "list_all hashable (ts @ cs)"
    and "map_of d ''journal'' = Some (PDict j)"
    and "map_of j ''title'' = Some t"
  shows "\<exists>out kw. format_dimensions h (PDict d) = Inr (PDict out)
     \<and> map_of out ''keywords'' = Some (PList kw)
     \<and> set kw = set ts \<union> set cs \<and> distinct kw
     \<and> map_of out ''journal_title'' = Some t
     \<and> map_of out ''terms'' = None \<and> map_of out ''concepts'' = None
     \<and> map_of out ''journal'' = None
     \<and> map_of out ''authors'' = map_of d ''authors''
     \<and> map_of out ''doi'' = map_of d ''doi''
     \<and> map_of out ''linkout'' = map_of d ''linkout''
     \<and> dom (map_of out) \<subseteq> {''authors'', ''doi'', ''linkout'', ''keywords'', ''journal_title''}"
proof -
  from format_dimensions_ok [OF assms, of h]
  obtain out where f: "format_dimensions h (PDict d) = Inr (PDict out)"
    and m: "map_of out = (\<lambda>k. if k = ''keywords'' then Some (PList (set_order h (ts @ cs)))
                         else if k = ''journal_title'' then Some t
                         else if k \<in> {''authors'', ''doi'', ''linkout''} then map_of d k
                         else None)"
    by blast
  have "map_of out ''keywords'' = Some (PList (set_order h (ts @ cs)))"
    and "map_of out ''journal_title'' = Some t"
    and "map_of out ''terms'' = None" and "map_of out ''concepts'' = None"
    and "map_of out ''journal'' = None"
    and "map_of out ''authors'' = map_of d ''authors''"
    and "map_of out ''doi'' = map_of d ''doi''"
    and "map_of out ''linkout'' = map_of d ''linkout''"
    by (simp_all add: m)
  moreover have "set (set_order h (ts @ cs)) = set ts \<union> set cs"
    by (simp add: set_set_order)
  moreover have "distinct (set_order h (ts @ cs))"
    by (rule distinct_set_order)
  moreover have "dom (map_of out) \<subseteq> {''authors'', ''doi'', ''linkout'', ''keywords'', ''journal_title''}"
    unfolding m by (auto split: if_splits)
  ultimately show ?thesis using f by blast
qed

theorem format_dimensions_keywords_and_journal_title_witness:
  "\<exists>out kw. format_dimensions (\<lambda>v. 0)
        (PDict [(''terms'', PList [PStr ''a'', PStr ''b'']),
                (''concepts'', PList [PStr ''b'', PStr ''c'']),
                (''journal'', PDict [(''title'', PStr ''J''), (''id'', PStr ''j1'')]),
                (''doi'', PStr ''10.1/x''), (''year'', PStr ''2019'')]) = Inr (PDict out)
     \<and> map_of out ''keywords'' = Some (PList kw)
     \<and> set kw = {PStr ''a'', PStr ''b'', PStr ''c''}
     \<and> map_of out ''journal_title'' = Some (PStr ''J'')
     \<and> map_of out ''terms'' = None \<and> map_of out ''concepts'' = None
     \<and> map_of out ''journal'' = None
     \<and> map_of out ''doi'' = Some (PStr ''10.1/x'')"
proof -
  let ?d = "[(''terms'', PList [PStr ''a'', PStr ''b'']),
                (''concepts'', PList [PStr ''b'', PStr ''c'']),
                (''journal'', PDict [(''title'', PStr ''J''), (''id'', PStr ''j1'')]),
                (''doi'', PStr ''10.1/x''), (''year'', PStr ''2019'')]"
  have 1: "map_of ?d ''terms'' = Some (PList [PStr ''a'', PStr ''b''])" by simp
  have 2: "map_of ?d ''concepts'' = Some (PList [PStr ''b'', PStr ''c''])" by simp
  have 3: "list_all hashable ([PStr ''a'', PStr ''b''] @ [PStr ''b'', PStr ''c''])" by simp
  have 4: "map_of ?d ''journal'' = Some (PDict [(''title'', PStr ''J''), (''id'', PStr ''j1'')])"
    by simp
  have 5: "map_of [(''title'', PStr ''J''), (''id'', PStr ''j1'')] ''title'' = Some (PStr ''J'')"
    by simp
  from format_dimensions_keywords_and_journal_title [OF 1 2 3 4 5, of "\<lambda>v. 0"]
  obtain out kw where "format_dimensions (\<lambda>v. 0) (PDict ?d) = Inr (PDict out)"
    and "map_of out ''keywords'' = Some (PList kw)"
    and "set kw = set [PStr ''a'', PStr ''b''] \<union> set [PStr ''b'', PStr ''c'']"
    and "map_of out ''journal_title'' = Some (PStr ''J'')"
    and "map_of out ''terms'' = None" and "map_of out ''concepts'' = None"
    and "map_of out ''journal'' = None"
    and "map_of out ''doi'' = map_of ?d ''doi''"
    by blast
  moreover have "set [PStr ''a'', PStr ''b''] \<union> set [PStr ''b'', PStr ''c'']
      = {PStr ''a'', PStr ''b'', PStr ''c''}" by auto
  moreover have "map_of ?d ''doi'' = Some (PStr ''10.1/x'')" by simp
  ultimately show ?thesis by (intro exI [of _ out] exI [of _ kw]) simp
qed

text \<open>
  Claim C10 (format_dimensions needs its keys). An input record without \<^verbatim>\<open>terms\<close>
  raises \<^verbatim>\<open>KeyError\<close> for \<^verbatim>\<open>terms\<close>; with \<^verbatim>\<open>terms\<close> and without \<^verbatim>\<open>concepts\<close>, for
  \<^verbatim>\<open>concepts\<close>; with both (lists of hashable values) and without \<^verbatim>\<open>journal\<close>, for
  \<^verbatim>\<open>journal\<close>; and with a \<^verbatim>\<open>journal\<close> object that has no \<^verbatim>\<open>title\<close>, for
  \<^verbatim>\<open>title\<close>. In each case no record is returned.
\<close>

theorem format_dimensions_missing_key_raises:
  "(map_of d ''terms'' = None \<longrightarrow>
      format_dimensions h (PDict d) = Inl (KeyError ''terms''))
   \<and> (map_of d ''terms'' = Some v \<and> map_of d ''concepts'' = None \<longrightarrow>
      format_dimensions h (PDict d) = Inl (KeyError ''concepts''))
   \<and> (map_of d ''terms'' = Some (PList ts) \<and> map_of d ''concepts'' = Some (PList cs)
       \<and> list_all hashable (ts @ cs) \<and> map_of d ''journal'' = None \<longrightarrow>
      format_dimensions h (PDict d) = Inl (KeyError ''journal''))
   \<and> (map_of d ''terms'' = Some (PList ts) \<and> map_of d ''concepts'' = Some (PList cs)
       \<and> list_all hashable (ts @ cs) \<and> map_of d ''journal'' = Some (PDict j)
       \<and> map_of j ''title'' = None \<longrightarrow>
      format_dimensions h (PDict d) = Inl (KeyError ''title''))"
  using format_dimensions_missing_terms [of d h]
    format_dimensions_missing_concepts [of d v h]
    format_dimensions_missing_journal [of d ts cs h]
    format_dimensions_missing_title [of d ts cs j h]
  by blast

theorem format_dimensions_missing_key_raises_witness:
  "format_dimensions (\<lambda>v. 0)
      (PDict [(''concepts'', PList [PStr ''b'']), (''journal'', PDict [(''title'', PStr ''J'')])])
     = Inl (KeyError ''terms'')
   \<and> format_dimensions (\<lambda>v. 0)
      (PDict [(''terms'', PList [PStr ''a'']), (''journal'', PDict [(''title'', PStr ''J'')])])
     = Inl (KeyError ''concepts'')
   \<and> format_dimensions (\<lambda>v. 0)
      (PDict [(''terms'', PList [PStr ''a'']), (''concepts'', PList [PStr ''b''])])
     = Inl (KeyError ''journal'')
   \<and> format_dimensions (\<lambda>v. 0)
      (PDict [(''terms'', PList [PStr ''a'']), (''concepts'', PList [PStr ''b'']),
              (''journal'', PDict [(''id'', PStr ''j1'')])])
     = Inl (KeyError ''title'')"
  using format_dimensions_missing_key_raises
      [of "[(''concepts'', PList [PStr ''b'']), (''journal'', PDict [(''title'', PStr ''J'')])]"
          "\<lambda>v. 0"]
    format_dimensions_missing_key_raises
      [of "[(''terms'', PList [PStr ''a'']), (''journal'', PDict [(''title'', PStr ''J'')])]"
          "\<lambda>v. 0" "PList [PStr ''a'']"]
    format_dimensions_missing_key_raises
      [of "[(''terms'', PList [PStr ''a'']), (''concepts'', PList [PStr ''b''])]"
          "\<lambda>v. 0" _ "[PStr ''a'']" "[PStr ''b'']"]
    format_dimensions_missing_key_raises
      [of "[(''terms'', PList [PStr ''a'']), (''concepts'', PList [PStr ''b'']),
              (''journal'', PDict [(''id'', PStr ''j1'')])]"
          "\<lambda>v. 0" _ "[PStr ''a'']" "[PStr ''b'']" "[(''id'', PStr ''j1'')]"]
  by simp

end
